theory Spec2Isabelle
  imports Complex_Main "HOL-Library.AList"
begin

unbundle bit_operations_syntax

section \<open>JavaScript values\<close>

text \<open>
  The services in \<^verbatim>\<open>lib/fallback-location.ts\<close> and the component in
  \<^verbatim>\<open>components/DriverLocationUpdater.tsx\<close> work on JavaScript values. Numbers are
  modelled as reals (rounding of doubles and \<^verbatim>\<open>NaN\<close> are outside the model), timestamps
  as integers, strings as lists of 8-bit characters (identifiers of the store are ASCII).
  \<^verbatim>\<open>null\<close> and \<^verbatim>\<open>undefined\<close> are one value, \<open>JNull\<close>: the code never tells them apart.
\<close>

datatype jsval = JNull | JBool bool | JNum real | JStr string

text \<open>Truthiness, as used by \<^verbatim>\<open>!x\<close>, \<^verbatim>\<open>x || y\<close>, \<^verbatim>\<open>x && y\<close> and \<^verbatim>\<open>if (x)\<close>.\<close>

fun truthy :: "jsval \<Rightarrow> bool" where
  "truthy JNull = False"
| "truthy (JBool b) = b"
| "truthy (JNum x) = (x \<noteq> 0)"
| "truthy (JStr s) = (s \<noteq> [])"

text \<open>\<^verbatim>\<open>a || b\<close> on values.\<close>

definition js_or :: "jsval \<Rightarrow> jsval \<Rightarrow> jsval" where
  "js_or a b = (if truthy a then a else b)"

text \<open>A parameter of type \<^verbatim>\<open>string | null\<close> or an optional string field.\<close>

fun of_opt :: "string option \<Rightarrow> jsval" where
  "of_opt None = JNull"
| "of_opt (Some s) = JStr s"

datatype error = Error string

section \<open>Tracking-ID derivation\<close>

text \<open>
  \<^verbatim>\<open>ToInt32\<close>: the value of a number as a signed 32-bit integer, which the operators
  \<^verbatim>\<open><<\<close> and \<^verbatim>\<open>&\<close> apply to each operand and to their result.
\<close>

definition toInt32 :: "int \<Rightarrow> int" where
  "toInt32 x = (let m = x mod 2 ^ 32 in if m \<ge> 2 ^ 31 then m - 2 ^ 32 else m)"

text \<open>\<^verbatim>\<open>x << n\<close> and \<^verbatim>\<open>x & y\<close>.\<close>

definition js_shl :: "int \<Rightarrow> nat \<Rightarrow> int" where
  "js_shl x n = toInt32 (push_bit (n mod 32) (toInt32 x))"

definition js_and :: "int \<Rightarrow> int \<Rightarrow> int" where
  "js_and x y = toInt32 (toInt32 x AND toInt32 y)"

text \<open>\<^verbatim>\<open>a % b\<close> on integers: the remainder has the sign of the dividend.\<close>

definition js_rem :: "int \<Rightarrow> int \<Rightarrow> int" where
  "js_rem a b = sgn a * (\<bar>a\<bar> mod \<bar>b\<bar>)"

definition charCodeAt :: "char \<Rightarrow> int" where
  "charCodeAt c = of_char c"

text \<open>The character class \<^verbatim>\<open>[a-zA-Z0-9]\<close>.\<close>

definition alphanumeric :: "char \<Rightarrow> bool" where
  "alphanumeric c =
     ((97 \<le> (of_char c :: nat) \<and> (of_char c :: nat) \<le> 122)
      \<or> (65 \<le> (of_char c :: nat) \<and> (of_char c :: nat) \<le> 90)
      \<or> (48 \<le> (of_char c :: nat) \<and> (of_char c :: nat) \<le> 57))"

text \<open>\<^verbatim>\<open>toUpperCase\<close> of one character that passed the class above.\<close>

definition upperChar :: "char \<Rightarrow> char" where
  "upperChar c =
     (if 97 \<le> (of_char c :: nat) \<and> (of_char c :: nat) \<le> 122
      then char_of ((of_char c :: nat) - 32) else c)"

definition toUpperCase :: "string \<Rightarrow> string" where
  "toUpperCase s = map upperChar s"

definition digit :: "nat \<Rightarrow> char" where
  "digit d = char_of (48 + d)"

text \<open>\<^verbatim>\<open>toString()\<close> of a non-negative integer, and \<^verbatim>\<open>padStart\<close> with one character.\<close>

fun toString :: "nat \<Rightarrow> string" where
  "toString n = (if n < 10 then [digit n] else toString (n div 10) @ [digit (n mod 10)])"

declare toString.simps [simp del]

definition padStart :: "string \<Rightarrow> nat \<Rightarrow> char \<Rightarrow> string" where
  "padStart s n c = replicate (n - length s) c @ s"

text \<open>
  One round of the loop body
  \<^verbatim>\<open>hash = ((hash << 5) - hash) + vehicleId.charCodeAt(i); hash = hash & hash;\<close>
\<close>

definition hash_step :: "int \<Rightarrow> char \<Rightarrow> int" where
  "hash_step hash c =
     (let hash1 = (js_shl hash 5 - hash) + charCodeAt c
      in js_and hash1 hash1)"

definition generateConsistentTrackingId :: "string \<Rightarrow> string" where
  "generateConsistentTrackingId vehicleId =
     (let hash = foldl hash_step 0 vehicleId;
          shortId = toUpperCase (take 4 (filter alphanumeric vehicleId));
          uniqueDigits = padStart (toString (nat \<bar>js_rem hash 10000\<bar>)) 4 (CHR ''0'')
      in shortId @ uniqueDigits)"

text \<open>\<^verbatim>\<open>generateShortId\<close>: \<^verbatim>\<open>fullId.slice(-6)\<close>, the last six characters.\<close>

definition generateShortId :: "string \<Rightarrow> string" where
  "generateShortId fullId = drop (length fullId - 6) fullId"

subsection \<open>What the specification says the code is\<close>



section \<open>The realtime store and the signed-in user\<close>

text \<open>
  A record of the store is the list of its fields. A path with no record holds the empty
  list: the store does not tell a record with no field from an absent one, which is what
  \<^verbatim>\<open>snapshot.exists()\<close> reports. Paths are the strings the code builds
  (\<^verbatim>\<open>`vehicles/${vehicleId}`\<close>); identifiers are keys of the store (not empty, no
  \<^verbatim>\<open>/\<close>), so a path names one record. Store operations succeed: a transport failure
  is outside the model.
\<close>

type_synonym node = "(string \<times> jsval) list"

record firebase =
  database :: "string \<Rightarrow> node"
  currentUser :: "string option"

text \<open>Reading a field of a snapshot's value: \<^verbatim>\<open>data.name\<close>.\<close>

definition field :: "node \<Rightarrow> string \<Rightarrow> jsval" where
  "field data k = (case map_of data k of None \<Rightarrow> JNull | Some v \<Rightarrow> v)"

text \<open>
  Interpolation of an identifier field into a path, and a stored coordinate read as a
  number. The fields read this way hold strings and numbers respectively.
\<close>

fun str_of :: "jsval \<Rightarrow> string" where
  "str_of (JStr s) = s"
| "str_of _ = []"

fun num_of :: "jsval \<Rightarrow> real" where
  "num_of (JNum x) = x"
| "num_of _ = 0"

definition db_get :: "firebase \<Rightarrow> string \<Rightarrow> node" where
  "db_get fb path = database fb path"

definition snapshot_exists :: "node \<Rightarrow> bool" where
  "snapshot_exists snapshot = (snapshot \<noteq> [])"

text \<open>\<^verbatim>\<open>set(ref, value)\<close> replaces the record; a null field is not stored.\<close>

definition db_set :: "firebase \<Rightarrow> string \<Rightarrow> node \<Rightarrow> firebase" where
  "db_set fb path val = fb\<lparr>database := (database fb)(path := filter (\<lambda>kv. snd kv \<noteq> JNull) val)\<rparr>"

text \<open>
  \<^verbatim>\<open>update(ref, values)\<close> writes the listed fields and keeps the others; a null value
  removes the field. On a path with no record it creates one with the listed fields.
\<close>

definition merge_field :: "node \<Rightarrow> string \<times> jsval \<Rightarrow> node" where
  "merge_field data kv =
     (if snd kv = JNull then AList.delete (fst kv) data else AList.update (fst kv) (snd kv) data)"

definition db_update :: "firebase \<Rightarrow> string \<Rightarrow> node \<Rightarrow> firebase" where
  "db_update fb path vals = fb\<lparr>database := (database fb)(path := foldl merge_field (database fb path) vals)\<rparr>"

definition requireAuth :: "firebase \<Rightarrow> error + string" where
  "requireAuth fb =
     (case currentUser fb of
        None \<Rightarrow> Inl (Error ''Not authenticated'')
      | Some uid \<Rightarrow> Inr uid)"

text \<open>\<^verbatim>\<open>Date.now()\<close> is the parameter \<open>now\<close> of each operation.\<close>

definition timestamp :: "int \<Rightarrow> jsval" where
  "timestamp now = JNum (real_of_int now)"

section \<open>Tracking identity\<close>

text \<open>
  \<^verbatim>\<open>getOrCreateTrackingId\<close>. The only failure inside its \<^verbatim>\<open>try\<close> block in the model is
  \<^verbatim>\<open>requireAuth()\<close>; the \<^verbatim>\<open>catch\<close> block then returns the generated code and nothing is
  written.
\<close>

definition getOrCreateTrackingId :: "firebase \<Rightarrow> int \<Rightarrow> string \<Rightarrow> jsval \<times> firebase" where
  "getOrCreateTrackingId fb now vehicleId =
     (let trackingRef = ''vehicleTrackingIds/'' @ vehicleId;
          snapshot = db_get fb trackingRef
      in if snapshot_exists snapshot
         then (field snapshot ''trackingId'', fb)
         else (let tid = generateConsistentTrackingId vehicleId
               in case requireAuth fb of
                    Inl e \<Rightarrow> (JStr (generateConsistentTrackingId vehicleId), fb)
                  | Inr uid \<Rightarrow>
                      (JStr tid,
                       db_set fb trackingRef
                         [(''trackingId'', JStr tid),
                          (''vehicleId'', JStr vehicleId),
                          (''createdAt'', timestamp now),
                          (''createdBy'', JStr uid)])))"

section \<open>Distance\<close>






section \<open>Vehicle location service\<close>

record latlng =
  lat :: real
  lng :: real






section \<open>Vehicle service: driver assignment and availability\<close>

text \<open>
  The branch \<^verbatim>\<open>if (driverId) { ... }\<close> of \<^verbatim>\<open>assignDriver\<close>: the checks on the driver,
  then the writes that move the driver.
\<close>

definition assign_branch ::
  "firebase \<Rightarrow> int \<Rightarrow> string \<Rightarrow> string \<Rightarrow> jsval \<Rightarrow> (error + unit) \<times> firebase" where
  "assign_branch fb now vehicleId driverId currentDriverId =
     (let driverRef = ''users/'' @ driverId;
          driverSnapshot = db_get fb driverRef
      in if \<not> snapshot_exists driverSnapshot
         then (Inl (Error (''Driver not found: '' @ driverId)), fb)
         else (let driverData = driverSnapshot
               in if field driverData ''role'' \<noteq> JStr ''driver''
                  then (Inl (Error ''User is not a driver''), fb)
                  else (let fb1 =
                              (if truthy (field driverData ''assignedVehicleId'')
                                  \<and> field driverData ''assignedVehicleId'' \<noteq> JStr vehicleId
                               then db_update fb
                                      (''vehicles/'' @ str_of (field driverData ''assignedVehicleId''))
                                      [(''driverId'', JNull), (''updatedAt'', timestamp now)]
                               else fb);
                            fb2 = db_update fb1 driverRef
                                    [(''assignedVehicleId'', JStr vehicleId), (''updatedAt'', timestamp now)];
                            fb3 =
                              (if truthy currentDriverId \<and> currentDriverId \<noteq> JStr driverId
                               then db_update fb2 (''users/'' @ str_of currentDriverId)
                                      [(''assignedVehicleId'', JNull), (''updatedAt'', timestamp now)]
                               else fb2)
                        in (Inr (), fb3))))"

text \<open>The branch \<^verbatim>\<open>else { ... }\<close>: the driver is being unassigned.\<close>

definition unassign_branch :: "firebase \<Rightarrow> int \<Rightarrow> jsval \<Rightarrow> (error + unit) \<times> firebase" where
  "unassign_branch fb now currentDriverId =
     (if truthy currentDriverId
      then (Inr (), db_update fb (''users/'' @ str_of currentDriverId)
                      [(''assignedVehicleId'', JNull), (''updatedAt'', timestamp now)])
      else (Inr (), fb))"

text \<open>The body of the \<^verbatim>\<open>try\<close> block of \<^verbatim>\<open>assignDriver\<close>.\<close>

definition assignDriver_try ::
  "firebase \<Rightarrow> int \<Rightarrow> string \<Rightarrow> string option \<Rightarrow> (error + unit) \<times> firebase" where
  "assignDriver_try fb now vehicleId driverId =
     (let vehicleRef = ''vehicles/'' @ vehicleId;
          vehicleSnapshot = db_get fb vehicleRef
      in if \<not> snapshot_exists vehicleSnapshot
         then (Inl (Error (''Vehicle not found: '' @ vehicleId)), fb)
         else (let vehicleData = vehicleSnapshot;
                   currentDriverId = js_or (field vehicleData ''driverId'') JNull;
                   branch = (if truthy (of_opt driverId)
                             then assign_branch fb now vehicleId (str_of (of_opt driverId)) currentDriverId
                             else unassign_branch fb now currentDriverId)
               in case branch of
                    (Inl e, fb1) \<Rightarrow> (Inl e, fb1)
                  | (Inr u, fb1) \<Rightarrow>
                      (Inr (), db_update fb1 vehicleRef
                                 [(''driverId'', of_opt driverId), (''updatedAt'', timestamp now)])))"

text \<open>
  \<^verbatim>\<open>vehicleService.assignDriver\<close>: authentication and the check of the vehicle ID come
  before the \<^verbatim>\<open>try\<close> block, whose errors are thrown again with a prefix.
\<close>

definition assignDriver ::
  "firebase \<Rightarrow> int \<Rightarrow> string \<Rightarrow> string option \<Rightarrow> (error + unit) \<times> firebase" where
  "assignDriver fb now vehicleId driverId =
     (case requireAuth fb of
        Inl e \<Rightarrow> (Inl e, fb)
      | Inr uid \<Rightarrow>
          if \<not> truthy (JStr vehicleId)
          then (Inl (Error ''Vehicle ID is required''), fb)
          else (case assignDriver_try fb now vehicleId driverId of
                  (Inl (Error message), fb1) \<Rightarrow>
                    (Inl (Error (''Failed to assign driver: '' @ message)), fb1)
                | (Inr u, fb1) \<Rightarrow> (Inr (), fb1)))"

definition markVehicleAsInUse :: "firebase \<Rightarrow> int \<Rightarrow> string \<Rightarrow> firebase" where
  "markVehicleAsInUse fb now vehicleId =
     db_update fb (''vehicles/'' @ vehicleId) [(''available'', JBool False), (''updatedAt'', timestamp now)]"

definition markVehicleAsAvailable :: "firebase \<Rightarrow> int \<Rightarrow> string \<Rightarrow> firebase" where
  "markVehicleAsAvailable fb now vehicleId =
     db_update fb (''vehicles/'' @ vehicleId) [(''available'', JBool True), (''updatedAt'', timestamp now)]"

section \<open>Booking service\<close>

record bookingData =
  b_userId :: string
  b_vehicleId :: string
  b_driverId :: string
  b_pickupAddress :: string
  b_destinationAddress :: string
  b_pickupLat :: real
  b_pickupLng :: real
  b_destinationLat :: real
  b_destinationLng :: real
  b_distance :: real
  b_estimatedTime :: string
  b_amount :: real

text \<open>
  \<^verbatim>\<open>bookingService.createBooking\<close>. The key made by \<^verbatim>\<open>push(ref(database, 'bookings'))\<close>
  is the parameter \<open>key\<close>.
\<close>

definition createBooking :: "firebase \<Rightarrow> int \<Rightarrow> string \<Rightarrow> bookingData \<Rightarrow> string \<times> firebase" where
  "createBooking fb now key data =
     (let newRef = ''bookings/'' @ key;
          bookingId = str_of (js_or (JStr key) (JStr []));
          shortBookingId = generateShortId bookingId;
          booking =
            [(''id'', JStr bookingId),
             (''shortId'', JStr shortBookingId),
             (''userId'', JStr (b_userId data)),
             (''vehicleId'', JStr (b_vehicleId data)),
             (''driverId'', JStr (b_driverId data)),
             (''pickupAddress'', JStr (b_pickupAddress data)),
             (''destinationAddress'', JStr (b_destinationAddress data)),
             (''pickupLat'', JNum (b_pickupLat data)),
             (''pickupLng'', JNum (b_pickupLng data)),
             (''destinationLat'', JNum (b_destinationLat data)),
             (''destinationLng'', JNum (b_destinationLng data)),
             (''distance'', JNum (b_distance data)),
             (''estimatedTime'', JStr (b_estimatedTime data)),
             (''amount'', JNum (b_amount data)),
             (''status'', JStr ''pending_payment''),
             (''paymentStatus'', JStr ''pending''),
             (''createdAt'', timestamp now),
             (''updatedAt'', timestamp now)];
          fb1 = db_set fb newRef booking;
          fb2 = markVehicleAsInUse fb1 now (b_vehicleId data)
      in (bookingId, fb2))"

text \<open>
  \<^verbatim>\<open>bookingService.updateBooking\<close>; \<open>updates\<close> is the \<^verbatim>\<open>Partial<Booking>\<close>, the list of
  the fields it gives.
\<close>

definition updateBooking :: "firebase \<Rightarrow> int \<Rightarrow> string \<Rightarrow> node \<Rightarrow> (error + unit) \<times> firebase" where
  "updateBooking fb now bookingId updates =
     (let bookingRef = ''bookings/'' @ bookingId;
          snapshot = db_get fb bookingRef
      in if \<not> snapshot_exists snapshot
         then (Inl (Error ''Booking not found''), fb)
         else (let current = snapshot;
                   updateData = AList.update ''updatedAt'' (timestamp now) updates;
                   fb1 = db_update fb bookingRef updateData
               in if (field updates ''status'' = JStr ''completed''
                        \<or> field updates ''status'' = JStr ''cancelled'')
                     \<and> truthy (field current ''vehicleId'')
                  then (Inr (), markVehicleAsAvailable fb1 now (str_of (field current ''vehicleId'')))
                  else (Inr (), fb1)))"

section \<open>The driver's location updater\<close>







subsection \<open>Admission by the throttle\<close>


subsection \<open>The host of the component\<close>

text \<open>
  The answer to \<^verbatim>\<open>fetch(service, { signal })\<close>: the call throws (network failure, or the
  abort after the given number of milliseconds), or gives a response with its
  \<^verbatim>\<open>ok\<close> flag and the value of \<^verbatim>\<open>response.json()\<close>, if that does not throw.
\<close>

datatype response = Rejected | Response bool "node option"

datatype geo_error = PERMISSION_DENIED | POSITION_UNAVAILABLE | TIMEOUT

record coords =
  c_latitude :: real
  c_longitude :: real
  c_accuracy :: real

text \<open>
  The outcome of one \<^verbatim>\<open>getCurrentPosition\<close>: the success callback (and whether it came
  after the 10 s timer of the caller), the error callback, or no callback.
\<close>

datatype geo_result = Position coords bool | GeoError geo_error | NoCallback

record position_options =
  enableHighAccuracy :: bool
  timeout :: int
  maximumAge :: int

record host =
  fetch :: "string \<Rightarrow> int \<Rightarrow> response"
  parseFloat :: "jsval \<Rightarrow> real"
  math_random :: "error + real"
  getCurrentPosition :: "position_options \<Rightarrow> nat \<Rightarrow> geo_result"
  clock :: "nat \<Rightarrow> int"
  assignedVehicleId :: "string option"
  vehiclesByDriver :: "string list"

subsection \<open>The vehicle of the driver\<close>


subsection \<open>IP fallback\<close>

definition services :: "string list" where
  "services = [''https://ipapi.co/json/'', ''https://ipinfo.io/json/'',
               ''https://geolocation-db.com/json/'']"

definition indianCities :: "latlng list" where
  "indianCities =
     [\<lparr>lat = 28.6139, lng = 77.2090\<rparr>,
      \<lparr>lat = 19.0760, lng = 72.8777\<rparr>,
      \<lparr>lat = 12.9716, lng = 77.5946\<rparr>,
      \<lparr>lat = 13.0827, lng = 80.2707\<rparr>,
      \<lparr>lat = 11.9327, lng = 79.8339\<rparr>]"

text \<open>Reading an array at an index: \<^verbatim>\<open>undefined\<close> outside its bounds.\<close>

definition at_index :: "'a list \<Rightarrow> int \<Rightarrow> 'a option" where
  "at_index xs i = (if 0 \<le> i \<and> i < int (length xs) then Some (xs ! nat i) else None)"

text \<open>
  The loop \<^verbatim>\<open>for (const service of services)\<close>: each request is aborted after 5000 ms;
  an exception of a round is caught and the next service is tried.
\<close>

fun tryServices :: "host \<Rightarrow> string list \<Rightarrow> latlng option" where
  "tryServices h [] = None"
| "tryServices h (service # rest) =
     (case fetch h service 5000 of
        Rejected \<Rightarrow> tryServices h rest
      | Response ok body \<Rightarrow>
          (if ok
           then (case body of
                   None \<Rightarrow> tryServices h rest
                 | Some data \<Rightarrow>
                     (if truthy (field data ''latitude'') \<and> truthy (field data ''longitude'')
                      then Some \<lparr>lat = parseFloat h (field data ''latitude''),
                                 lng = parseFloat h (field data ''longitude'')\<rparr>
                      else tryServices h rest))
           else tryServices h rest))"

text \<open>
  \<^verbatim>\<open>getIPLocation\<close>. After the loop a city is drawn with \<^verbatim>\<open>Math.random()\<close>; an exception
  there reaches the outer \<^verbatim>\<open>catch\<close>, which returns the centre of India.
\<close>

definition getIPLocation :: "host \<Rightarrow> latlng option" where
  "getIPLocation h =
     (case tryServices h services of
        Some location \<Rightarrow> Some location
      | None \<Rightarrow>
          (case math_random h of
             Inl e \<Rightarrow> Some \<lparr>lat = 20.5937, lng = 78.9629\<rparr>
           | Inr r \<Rightarrow> at_index indianCities \<lfloor>r * real (length indianCities)\<rfloor>))"

text \<open>
  What one service contributes to \<^verbatim>\<open>getIPLocation\<close>: a location when the request, bounded
  by 5000 ms, gives an \<^verbatim>\<open>ok\<close> response whose body has a latitude and a longitude.
\<close>

definition service_answer :: "host \<Rightarrow> string \<Rightarrow> latlng option" where
  "service_answer h service =
     (case fetch h service 5000 of
        Response True (Some data) \<Rightarrow>
          (if truthy (field data ''latitude'') \<and> truthy (field data ''longitude'')
           then Some \<lparr>lat = parseFloat h (field data ''latitude''),
                      lng = parseFloat h (field data ''longitude'')\<rparr>
           else None)
      | _ \<Rightarrow> None)"

subsection \<open>GPS acquisition\<close>

datatype position_source = FromGps | FromWatch









section \<open>The driver-vehicle invariant\<close>

text \<open>
  The two references of the data model: the \<^verbatim>\<open>driverId\<close> of a vehicle and the
  \<^verbatim>\<open>assignedVehicleId\<close> of a user, and the role of a user.
\<close>

definition vehicle_driver :: "firebase \<Rightarrow> string \<Rightarrow> jsval" where
  "vehicle_driver fb v = field (database fb (''vehicles/'' @ v)) ''driverId''"

definition driver_vehicle :: "firebase \<Rightarrow> string \<Rightarrow> jsval" where
  "driver_vehicle fb d = field (database fb (''users/'' @ d)) ''assignedVehicleId''"

definition user_role :: "firebase \<Rightarrow> string \<Rightarrow> jsval" where
  "user_role fb u = field (database fb (''users/'' @ u)) ''role''"

text \<open>
  Bidirectional consistency: the driver a vehicle names is a user of role driver whose
  assigned vehicle is that vehicle, and the vehicle a user names has that user as its
  driver. Identifiers are not empty.
\<close>

definition bidirectional :: "firebase \<Rightarrow> bool" where
  "bidirectional fb =
     ((\<forall>v d. v \<noteq> [] \<and> d \<noteq> [] \<and> vehicle_driver fb v = JStr d \<longrightarrow>
         user_role fb d = JStr ''driver'' \<and> driver_vehicle fb d = JStr v)
      \<and> (\<forall>d v. d \<noteq> [] \<and> v \<noteq> [] \<and> driver_vehicle fb d = JStr v \<longrightarrow>
         vehicle_driver fb v = JStr d))"

section \<open>Example stores\<close>

text \<open>Concrete stores on which the theorems below are instantiated.\<close>

definition fleet0 :: firebase where
  "fleet0 = \<lparr>database = (\<lambda>p. []), currentUser = Some ''admin1''\<rparr>"

definition fleet1 :: firebase where
  "fleet1 = \<lparr>database = (\<lambda>p. if p = ''vehicleTrackingIds/v1'' then
       [(''trackingId'', JStr ''V10042''), (''vehicleId'', JStr ''v1''),
        (''createdAt'', JNum 5), (''createdBy'', JStr ''admin1'')] else []),
     currentUser = None\<rparr>"

definition fleet2 :: firebase where
  "fleet2 = \<lparr>database = (\<lambda>p.
       if p = ''vehicles/vA'' then [(''name'', JStr ''Express Truck''), (''available'', JBool True)]
       else if p = ''vehicles/vB'' then [(''name'', JStr ''City Van''), (''available'', JBool True)]
       else if p = ''users/dX'' then [(''name'', JStr ''Asha''), (''role'', JStr ''driver'')]
       else if p = ''users/cZ'' then [(''name'', JStr ''Ravi''), (''role'', JStr ''customer'')]
       else []),
     currentUser = Some ''admin1''\<rparr>"


definition booking1 :: bookingData where
  "booking1 = \<lparr>b_userId = ''cZ'', b_vehicleId = ''vA'', b_driverId = ''dX'',
     b_pickupAddress = ''MG Road'', b_destinationAddress = ''Airport'',
     b_pickupLat = 12.9716, b_pickupLng = 77.5946,
     b_destinationLat = 13.1986, b_destinationLng = 77.7066,
     b_distance = 35, b_estimatedTime = ''1 hour'', b_amount = 875\<rparr>"

text \<open>A booking of vehicle \<open>vA\<close>, then started, then completed.\<close>

definition booked :: firebase where
  "booked = snd (createBooking fleet2 1000 ''-B1'' booking1)"

definition started :: firebase where
  "started = snd (updateBooking booked 2000 ''-B1'' [(''status'', JStr ''in_progress'')])"

definition completed :: firebase where
  "completed = snd (updateBooking started 3000 ''-B1'' [(''status'', JStr ''completed'')])"




text \<open>
  Hosts: one on which every IP service fails and every GPS request times out, one on which
  the second IP service answers, and one on which drawing a city throws.
\<close>

definition offline :: host where
  "offline = \<lparr>fetch = (\<lambda>service ms. Rejected), parseFloat = num_of, math_random = Inr 0.5,
     getCurrentPosition = (\<lambda>opts n. GeoError TIMEOUT), clock = (\<lambda>n. 15000 + 20000 * int n),
     assignedVehicleId = Some ''v1'', vehiclesByDriver = []\<rparr>"

definition second_answers :: host where
  "second_answers = offline\<lparr>fetch := (\<lambda>service ms.
       if service = ''https://ipinfo.io/json/'' \<and> ms = 5000
       then Response True (Some [(''latitude'', JNum 13.0827), (''longitude'', JNum 80.2707)])
       else Response False None)\<rparr>"

definition no_random :: host where
  "no_random = offline\<lparr>math_random := Inl (Error ''random'')\<rparr>"

section \<open>Properties of the tracking-ID derivation\<close>
















section \<open>Properties of the store operations\<close>

lemma field_update: "field (AList.update k v data) k' = (if k' = k then v else field data k')"
  by (simp add: field_def update_conv')

lemma field_delete: "field (AList.delete k data) k' = (if k' = k then JNull else field data k')"
  by (simp add: field_def delete_conv')

lemma field_Nil: "field [] k = JNull"
  by (simp add: field_def)

lemma field_Cons: "field ((k, v) # data) k' = (if k' = k then v else field data k')"
  by (simp add: field_def)

lemma update_not_Nil: "AList.update k v data \<noteq> []"
  by (cases data) auto

lemma database_db_update:
  "database (db_update fb path vals) p =
     (if p = path then foldl merge_field (database fb path) vals else database fb p)"
  by (simp add: db_update_def)

lemma database_db_set:
  "database (db_set fb path val) p =
     (if p = path then filter (\<lambda>kv. snd kv \<noteq> JNull) val else database fb p)"
  by (simp add: db_set_def)

lemma currentUser_db_update: "currentUser (db_update fb path vals) = currentUser fb"
  by (simp add: db_update_def)

lemma currentUser_db_set: "currentUser (db_set fb path val) = currentUser fb"
  by (simp add: db_set_def)

section \<open>Properties of the tracking identity\<close>

lemma getOrCreate_existing:
  "snapshot_exists (db_get fb (''vehicleTrackingIds/'' @ vehicleId)) \<Longrightarrow>
   getOrCreateTrackingId fb now vehicleId =
     (field (db_get fb (''vehicleTrackingIds/'' @ vehicleId)) ''trackingId'', fb)"
  by (simp add: getOrCreateTrackingId_def Let_def)

text \<open>
  Claim C6. \<^verbatim>\<open>getOrCreateTrackingId\<close> is idempotent: a second call on the store the first
  call left returns the same tracking ID and leaves that store as it is, whatever the two
  clock readings; and when a record exists at \<^verbatim>\<open>vehicleTrackingIds/{vehicleId}\<close> its
  \<^verbatim>\<open>trackingId\<close> is returned and the store is not written.
\<close>

theorem tracking_id_idempotent:
  "getOrCreateTrackingId (snd (getOrCreateTrackingId fb now1 vehicleId)) now2 vehicleId
     = getOrCreateTrackingId fb now1 vehicleId
   \<and> (snapshot_exists (db_get fb (''vehicleTrackingIds/'' @ vehicleId)) \<longrightarrow>
        getOrCreateTrackingId fb now1 vehicleId =
          (field (db_get fb (''vehicleTrackingIds/'' @ vehicleId)) ''trackingId'', fb))"
proof (cases "snapshot_exists (db_get fb (''vehicleTrackingIds/'' @ vehicleId))")
  case True
  then show ?thesis by (simp add: getOrCreate_existing)
next
  case False
  show ?thesis
  proof (cases "currentUser fb")
    case None
    with False show ?thesis
      by (simp add: getOrCreateTrackingId_def Let_def requireAuth_def)
  next
    case (Some uid)
    with False show ?thesis
      by (simp add: getOrCreateTrackingId_def Let_def requireAuth_def db_get_def
          snapshot_exists_def database_db_set field_Cons timestamp_def)
  qed
qed

text \<open>
  The theorem on a store that holds the record (nothing is written, the stored ID comes
  back) and on an empty store with a signed-in user (the first call writes, the second
  does not).
\<close>

theorem tracking_id_idempotent_witness:
  "getOrCreateTrackingId (snd (getOrCreateTrackingId fleet1 10 ''v1'')) 20 ''v1''
     = getOrCreateTrackingId fleet1 10 ''v1''
   \<and> snapshot_exists (db_get fleet1 (''vehicleTrackingIds/'' @ ''v1''))
   \<and> getOrCreateTrackingId fleet1 10 ''v1'' = (JStr ''V10042'', fleet1)
   \<and> getOrCreateTrackingId (snd (getOrCreateTrackingId fleet0 10 ''v1'')) 20 ''v1''
     = getOrCreateTrackingId fleet0 10 ''v1''
   \<and> \<not> snapshot_exists (db_get fleet0 (''vehicleTrackingIds/'' @ ''v1''))
   \<and> snd (getOrCreateTrackingId fleet0 10 ''v1'') \<noteq> fleet0"
proof -
  have e: "snapshot_exists (db_get fleet1 (''vehicleTrackingIds/'' @ ''v1''))"
    by (simp add: snapshot_exists_def db_get_def fleet1_def)
  have f: "field (db_get fleet1 (''vehicleTrackingIds/'' @ ''v1'')) ''trackingId'' = JStr ''V10042''"
    by (simp add: db_get_def fleet1_def field_Cons)
  have n: "\<not> snapshot_exists (db_get fleet0 (''vehicleTrackingIds/'' @ ''v1''))"
    by (simp add: snapshot_exists_def db_get_def fleet0_def)
  have w: "database (snd (getOrCreateTrackingId fleet0 10 ''v1'')) ''vehicleTrackingIds/v1'' \<noteq> []"
    by (simp add: getOrCreateTrackingId_def Let_def requireAuth_def db_get_def
          snapshot_exists_def database_db_set timestamp_def fleet0_def)
  have "database fleet0 ''vehicleTrackingIds/v1'' = []"
    by (simp add: fleet0_def)
  with w have d: "snd (getOrCreateTrackingId fleet0 10 ''v1'') \<noteq> fleet0"
    by metis
  have i1: "getOrCreateTrackingId (snd (getOrCreateTrackingId fleet1 10 ''v1'')) 20 ''v1''
      = getOrCreateTrackingId fleet1 10 ''v1''"
    using tracking_id_idempotent [of fleet1 10 "''v1''" 20] by (rule conjunct1)
  have i2: "getOrCreateTrackingId fleet1 10 ''v1'' = (JStr ''V10042'', fleet1)"
    using tracking_id_idempotent [of fleet1 10 "''v1''" 20] e f by simp
  have i3: "getOrCreateTrackingId (snd (getOrCreateTrackingId fleet0 10 ''v1'')) 20 ''v1''
      = getOrCreateTrackingId fleet0 10 ''v1''"
    using tracking_id_idempotent [of fleet0 10 "''v1''" 20] by (rule conjunct1)
  show ?thesis
    using i1 i2 i3 e n d by blast
qed

section \<open>Properties of the location service\<close>





section \<open>Properties of the driver assignment\<close>

lemma merge_two:
  "foldl merge_field data [(k1, v1), (k2, v2)] = merge_field (merge_field data (k1, v1)) (k2, v2)"
  by simp

lemma field_merge_field:
  "field (merge_field data (k, v)) k' = (if k' = k then v else field data k')"
  by (simp add: merge_field_def field_update field_delete)

lemma merge_field_not_Nil: "v \<noteq> JNull \<Longrightarrow> merge_field data (k, v) \<noteq> []"
  by (simp add: merge_field_def update_not_Nil)

lemma timestamp_not_null: "timestamp now \<noteq> JNull"
  by (simp add: timestamp_def)

lemma js_or_null: "js_or x JNull = (if truthy x then x else JNull)"
  by (simp add: js_or_def)

lemmas store_simps = database_db_update merge_two field_merge_field merge_field_not_Nil
  timestamp_not_null currentUser_db_update db_get_def snapshot_exists_def

lemma exists_db_update:
  "snapshot_exists (db_get (db_update fb q [(k1, v1), (k2, timestamp now)]) p)
     = (p = q \<or> snapshot_exists (db_get fb p))"
  by (simp add: store_simps)

lemma str_of_truthy_ne:
  assumes "truthy x" "x \<noteq> JStr s" "s \<noteq> []"
  shows "str_of x \<noteq> s"
  using assms by (cases x) auto

lemma assignDriver_assign:
  assumes auth: "currentUser fb = Some uid" and v: "v \<noteq> []" and d: "d \<noteq> []"
    and ev: "snapshot_exists (db_get fb (''vehicles/'' @ v))"
    and ed: "snapshot_exists (db_get fb (''users/'' @ d))"
    and role: "user_role fb d = JStr ''driver''"
  shows "fst (assignDriver fb now v (Some d)) = Inr ()"
    and "vehicle_driver (snd (assignDriver fb now v (Some d))) x =
      (if x = v then JStr d
       else if truthy (driver_vehicle fb d) \<and> driver_vehicle fb d \<noteq> JStr v
               \<and> x = str_of (driver_vehicle fb d) then JNull
       else vehicle_driver fb x)"
    and "driver_vehicle (snd (assignDriver fb now v (Some d))) u =
      (if truthy (vehicle_driver fb v) \<and> vehicle_driver fb v \<noteq> JStr d
            \<and> u = str_of (vehicle_driver fb v) then JNull
       else if u = d then JStr v
       else driver_vehicle fb u)"
    and "user_role (snd (assignDriver fb now v (Some d))) u = user_role fb u"
    and "currentUser (snd (assignDriver fb now v (Some d))) = currentUser fb"
    and "snapshot_exists (db_get fb p) \<Longrightarrow> snapshot_exists (db_get (snd (assignDriver fb now v (Some d))) p)"
proof -
  let ?w = "driver_vehicle fb d" and ?c = "vehicle_driver fb v"
  have c: "truthy ?c \<Longrightarrow> ?c \<noteq> JStr d \<Longrightarrow> str_of ?c \<noteq> d"
    using d by (rule str_of_truthy_ne [rotated 2])
  have w: "truthy ?w \<Longrightarrow> ?w \<noteq> JStr v \<Longrightarrow> str_of ?w \<noteq> v"
    using v by (rule str_of_truthy_ne [rotated 2])
  note defs = assignDriver_def assignDriver_try_def assign_branch_def requireAuth_def Let_def
    js_or_null vehicle_driver_def driver_vehicle_def user_role_def
  show "fst (assignDriver fb now v (Some d)) = Inr ()"
    using assms by (simp add: defs db_get_def)
  show "vehicle_driver (snd (assignDriver fb now v (Some d))) x =
      (if x = v then JStr d
       else if truthy ?w \<and> ?w \<noteq> JStr v \<and> x = str_of ?w then JNull
       else vehicle_driver fb x)"
    using assms w by (simp add: defs store_simps)
  show "driver_vehicle (snd (assignDriver fb now v (Some d))) u =
      (if truthy ?c \<and> ?c \<noteq> JStr d \<and> u = str_of ?c then JNull
       else if u = d then JStr v
       else driver_vehicle fb u)"
    using assms c by (simp add: defs store_simps)
  show "user_role (snd (assignDriver fb now v (Some d))) u = user_role fb u"
    using assms by (simp add: defs store_simps)
  show "currentUser (snd (assignDriver fb now v (Some d))) = currentUser fb"
    using assms by (simp add: defs store_simps)
  show "snapshot_exists (db_get (snd (assignDriver fb now v (Some d))) p)"
    if "snapshot_exists (db_get fb p)"
  proof -
    have "snd (assignDriver fb now v (Some d)) =
      db_update
        (let fb2 = db_update
               (if truthy ?w \<and> ?w \<noteq> JStr v
                then db_update fb (''vehicles/'' @ str_of ?w)
                       [(''driverId'', JNull), (''updatedAt'', timestamp now)]
                else fb)
               (''users/'' @ d) [(''assignedVehicleId'', JStr v), (''updatedAt'', timestamp now)]
         in if truthy ?c \<and> ?c \<noteq> JStr d
            then db_update fb2 (''users/'' @ str_of ?c)
                   [(''assignedVehicleId'', JNull), (''updatedAt'', timestamp now)]
            else fb2)
        (''vehicles/'' @ v) [(''driverId'', JStr d), (''updatedAt'', timestamp now)]"
      using assms by (simp add: defs db_get_def)
    then show ?thesis
      using that by (simp add: exists_db_update Let_def)
  qed
qed

lemma assignDriver_unassign:
  assumes auth: "currentUser fb = Some uid" and v: "v \<noteq> []"
    and ev: "snapshot_exists (db_get fb (''vehicles/'' @ v))"
    and none: "\<not> truthy (of_opt driverId)"
  shows "fst (assignDriver fb now v driverId) = Inr ()"
    and "vehicle_driver (snd (assignDriver fb now v driverId)) x =
      (if x = v then of_opt driverId else vehicle_driver fb x)"
    and "driver_vehicle (snd (assignDriver fb now v driverId)) u =
      (if truthy (vehicle_driver fb v) \<and> u = str_of (vehicle_driver fb v) then JNull
       else driver_vehicle fb u)"
    and "user_role (snd (assignDriver fb now v driverId)) u = user_role fb u"
proof -
  note defs = assignDriver_def assignDriver_try_def unassign_branch_def requireAuth_def Let_def
    js_or_null vehicle_driver_def driver_vehicle_def user_role_def
  show "fst (assignDriver fb now v driverId) = Inr ()"
    using assms by (simp add: defs db_get_def)
  show "vehicle_driver (snd (assignDriver fb now v driverId)) x =
      (if x = v then of_opt driverId else vehicle_driver fb x)"
    using assms by (simp add: defs store_simps)
  show "driver_vehicle (snd (assignDriver fb now v driverId)) u =
      (if truthy (vehicle_driver fb v) \<and> u = str_of (vehicle_driver fb v) then JNull
       else driver_vehicle fb u)"
    using assms by (simp add: defs store_simps)
  show "user_role (snd (assignDriver fb now v driverId)) u = user_role fb u"
    using assms by (simp add: defs store_simps)
qed




lemma assignDriver_success_pre:
  assumes "fst (assignDriver fb now v driverId) = Inr ()"
  shows "currentUser fb \<noteq> None \<and> v \<noteq> []
     \<and> snapshot_exists (db_get fb (''vehicles/'' @ v))
     \<and> (truthy (of_opt driverId) \<longrightarrow>
           snapshot_exists (db_get fb (''users/'' @ str_of (of_opt driverId)))
           \<and> user_role fb (str_of (of_opt driverId)) = JStr ''driver'')"
  using assms
  by (auto simp: assignDriver_def assignDriver_try_def assign_branch_def requireAuth_def Let_def
      user_role_def db_get_def
      split: option.splits if_splits prod.splits sum.splits error.splits)

lemma str_of_eq: "str_of x = s \<Longrightarrow> s \<noteq> [] \<Longrightarrow> x = JStr s"
  by (cases x) auto

lemma bidirectional_assign:
  assumes inv: "bidirectional fb"
    and auth: "currentUser fb = Some uid" and v: "v \<noteq> []" and d: "d \<noteq> []"
    and ev: "snapshot_exists (db_get fb (''vehicles/'' @ v))"
    and ed: "snapshot_exists (db_get fb (''users/'' @ d))"
    and role: "user_role fb d = JStr ''driver''"
  shows "bidirectional (snd (assignDriver fb now v (Some d)))"
proof -
  let ?fb' = "snd (assignDriver fb now v (Some d))"
  let ?w = "driver_vehicle fb d" and ?c = "vehicle_driver fb v"
  note V = assignDriver_assign(2) [OF auth v d ev ed role, of now]
  note D = assignDriver_assign(3) [OF auth v d ev ed role, of now]
  note R = assignDriver_assign(4) [OF auth v d ev ed role, of now]
  have fwd: "\<And>x y. x \<noteq> [] \<Longrightarrow> y \<noteq> [] \<Longrightarrow> vehicle_driver fb x = JStr y \<Longrightarrow>
      user_role fb y = JStr ''driver'' \<and> driver_vehicle fb y = JStr x"
    using inv unfolding bidirectional_def by blast
  have bwd: "\<And>y x. y \<noteq> [] \<Longrightarrow> x \<noteq> [] \<Longrightarrow> driver_vehicle fb y = JStr x \<Longrightarrow>
      vehicle_driver fb x = JStr y"
    using inv unfolding bidirectional_def by blast
  have "\<not> (truthy ?c \<and> ?c \<noteq> JStr d \<and> d = str_of ?c)"
    using str_of_truthy_ne [of ?c d] d by blast
  then have keep_d: "driver_vehicle ?fb' d = JStr v"
    by (simp add: D)
  have "user_role ?fb' y = JStr ''driver'' \<and> driver_vehicle ?fb' y = JStr x"
    if x: "x \<noteq> []" and y: "y \<noteq> []" and r: "vehicle_driver ?fb' x = JStr y" for x y
  proof (cases "x = v")
    case True
    with r have "y = d" by (simp add: V)
    with True role keep_d show ?thesis by (simp add: R)
  next
    case False
    with r have old: "vehicle_driver fb x = JStr y"
      by (simp add: V split: if_splits)
    from fwd [OF x y old] have ro: "user_role fb y = JStr ''driver''"
      and dv: "driver_vehicle fb y = JStr x" by simp_all
    have not_c: "\<not> (truthy ?c \<and> ?c \<noteq> JStr d \<and> y = str_of ?c)"
    proof
      assume a: "truthy ?c \<and> ?c \<noteq> JStr d \<and> y = str_of ?c"
      then have "str_of ?c = y" by simp
      then have "?c = JStr y" using y by (rule str_of_eq)
      from fwd [OF v y this] dv False show False by simp
    qed
    have not_d: "y \<noteq> d"
    proof
      assume "y = d"
      with dv have "?w = JStr x" by simp
      with False x r show False by (simp add: V)
    qed
    from not_c not_d dv ro show ?thesis by (simp add: D R)
  qed
  moreover have "vehicle_driver ?fb' x = JStr y"
    if y: "y \<noteq> []" and x: "x \<noteq> []" and r: "driver_vehicle ?fb' y = JStr x" for x y
  proof (cases "y = d")
    case True
    with r keep_d have "x = v" by simp
    with True show ?thesis by (simp add: V)
  next
    case False
    with r have old: "driver_vehicle fb y = JStr x"
      by (simp add: D split: if_splits)
    from bwd [OF y x old] have vd: "vehicle_driver fb x = JStr y" .
    have not_v: "x \<noteq> v"
    proof
      assume "x = v"
      with vd have "?c = JStr y" by simp
      with False y r show False by (simp add: D)
    qed
    have not_w: "\<not> (truthy ?w \<and> ?w \<noteq> JStr v \<and> x = str_of ?w)"
    proof
      assume a: "truthy ?w \<and> ?w \<noteq> JStr v \<and> x = str_of ?w"
      then have "str_of ?w = x" by simp
      then have "?w = JStr x" using x by (rule str_of_eq)
      from bwd [OF d x this] vd False show False by simp
    qed
    from not_v not_w vd show ?thesis by (simp add: V)
  qed
  ultimately show ?thesis
    unfolding bidirectional_def by blast
qed

lemma bidirectional_unassign:
  assumes inv: "bidirectional fb"
    and auth: "currentUser fb = Some uid" and v: "v \<noteq> []"
    and ev: "snapshot_exists (db_get fb (''vehicles/'' @ v))"
    and none: "\<not> truthy (of_opt driverId)"
  shows "bidirectional (snd (assignDriver fb now v driverId))"
proof -
  let ?fb' = "snd (assignDriver fb now v driverId)"
  let ?c = "vehicle_driver fb v"
  note V = assignDriver_unassign(2) [OF auth v ev none, of now]
  note D = assignDriver_unassign(3) [OF auth v ev none, of now]
  note R = assignDriver_unassign(4) [OF auth v ev none, of now]
  have fwd: "\<And>x y. x \<noteq> [] \<Longrightarrow> y \<noteq> [] \<Longrightarrow> vehicle_driver fb x = JStr y \<Longrightarrow>
      user_role fb y = JStr ''driver'' \<and> driver_vehicle fb y = JStr x"
    using inv unfolding bidirectional_def by blast
  have bwd: "\<And>y x. y \<noteq> [] \<Longrightarrow> x \<noteq> [] \<Longrightarrow> driver_vehicle fb y = JStr x \<Longrightarrow>
      vehicle_driver fb x = JStr y"
    using inv unfolding bidirectional_def by blast
  have "user_role ?fb' y = JStr ''driver'' \<and> driver_vehicle ?fb' y = JStr x"
    if x: "x \<noteq> []" and y: "y \<noteq> []" and r: "vehicle_driver ?fb' x = JStr y" for x y
  proof -
    have xv: "x \<noteq> v"
    proof
      assume "x = v"
      with r have "of_opt driverId = JStr y" by (simp add: V)
      with none y show False by simp
    qed
    with r have old: "vehicle_driver fb x = JStr y" by (simp add: V)
    from fwd [OF x y old] have ro: "user_role fb y = JStr ''driver''"
      and dv: "driver_vehicle fb y = JStr x" by simp_all
    have "\<not> (truthy ?c \<and> y = str_of ?c)"
    proof
      assume a: "truthy ?c \<and> y = str_of ?c"
      then have "str_of ?c = y" by simp
      then have "?c = JStr y" using y by (rule str_of_eq)
      from fwd [OF v y this] dv xv show False by simp
    qed
    with ro dv show ?thesis by (simp add: D R)
  qed
  moreover have "vehicle_driver ?fb' x = JStr y"
    if y: "y \<noteq> []" and x: "x \<noteq> []" and r: "driver_vehicle ?fb' y = JStr x" for x y
  proof -
    from r have old: "driver_vehicle fb y = JStr x" and nc: "\<not> (truthy ?c \<and> y = str_of ?c)"
      by (simp_all add: D split: if_splits)
    from bwd [OF y x old] have vd: "vehicle_driver fb x = JStr y" .
    have "x \<noteq> v"
    proof
      assume "x = v"
      with vd have "?c = JStr y" by simp
      with nc y show False by simp
    qed
    with vd show ?thesis by (simp add: V)
  qed
  ultimately show ?thesis
    unfolding bidirectional_def by blast
qed

lemma assignDriver_preserves:
  assumes inv: "bidirectional fb" and ok: "fst (assignDriver fb now v driverId) = Inr ()"
  shows "bidirectional (snd (assignDriver fb now v driverId))"
proof -
  from assignDriver_success_pre [OF ok] obtain uid where auth: "currentUser fb = Some uid"
    and v: "v \<noteq> []" and ev: "snapshot_exists (db_get fb (''vehicles/'' @ v))"
    and dr: "truthy (of_opt driverId) \<longrightarrow>
           snapshot_exists (db_get fb (''users/'' @ str_of (of_opt driverId)))
           \<and> user_role fb (str_of (of_opt driverId)) = JStr ''driver''"
    by auto
  show ?thesis
  proof (cases "truthy (of_opt driverId)")
    case True
    then obtain d where d: "driverId = Some d" "d \<noteq> []"
      by (cases driverId) auto
    with dr show ?thesis
      using bidirectional_assign [OF inv auth v d(2) ev] by simp
  next
    case False
    then show ?thesis
      by (rule bidirectional_unassign [OF inv auth v ev])
  qed
qed



lemma fleet2_simps:
  "currentUser fleet2 = Some ''admin1''"
  "database fleet2 ''vehicles/vA'' = [(''name'', JStr ''Express Truck''), (''available'', JBool True)]"
  "database fleet2 ''vehicles/vB'' = [(''name'', JStr ''City Van''), (''available'', JBool True)]"
  "database fleet2 ''users/dX'' = [(''name'', JStr ''Asha''), (''role'', JStr ''driver'')]"
  "database fleet2 ''users/cZ'' = [(''name'', JStr ''Ravi''), (''role'', JStr ''customer'')]"
  "database fleet2 ''users/dY'' = []"
  by (simp_all add: fleet2_def)








section \<open>Properties of the booking service\<close>

lemma createBooking_fields:
  "field (database (snd (createBooking fb now key data)) (''bookings/'' @ key)) ''status''
     = JStr ''pending_payment''"
  "field (database (snd (createBooking fb now key data)) (''bookings/'' @ key)) ''paymentStatus''
     = JStr ''pending''"
  "field (database (snd (createBooking fb now key data)) (''bookings/'' @ key)) ''vehicleId''
     = JStr (b_vehicleId data)"
  "field (database (snd (createBooking fb now key data)) (''vehicles/'' @ b_vehicleId data)) ''available''
     = JBool False"
  by (simp_all add: createBooking_def Let_def markVehicleAsInUse_def store_simps database_db_set
      field_Cons timestamp_def)

lemma updateBooking_terminal:
  assumes "snapshot_exists (db_get fb (''bookings/'' @ bookingId))"
    and "truthy (field (db_get fb (''bookings/'' @ bookingId)) ''vehicleId'')"
    and "field updates ''status'' = JStr ''completed'' \<or> field updates ''status'' = JStr ''cancelled''"
  shows "fst (updateBooking fb now bookingId updates) = Inr ()"
    and "field (database (snd (updateBooking fb now bookingId updates))
            (''vehicles/'' @ str_of (field (db_get fb (''bookings/'' @ bookingId)) ''vehicleId'')))
          ''available'' = JBool True"
  using assms
  by (auto simp: updateBooking_def Let_def markVehicleAsAvailable_def database_db_update
      merge_two field_merge_field)

lemma updateBooking_other:
  assumes "field updates ''status'' \<noteq> JStr ''completed''"
    and "field updates ''status'' \<noteq> JStr ''cancelled''"
  shows "database (snd (updateBooking fb now bookingId updates)) (''vehicles/'' @ v)
          = database fb (''vehicles/'' @ v)"
  using assms
  by (simp add: updateBooking_def Let_def database_db_update)

text \<open>
  Claim C4. \<^verbatim>\<open>createBooking\<close> stores the booking with status \<^verbatim>\<open>pending_payment\<close> and
  payment status \<^verbatim>\<open>pending\<close> and leaves the \<^verbatim>\<open>available\<close> field of the vehicle it names
  false. \<^verbatim>\<open>updateBooking\<close> of a stored booking that names a vehicle, with status
  \<^verbatim>\<open>completed\<close> or \<^verbatim>\<open>cancelled\<close>, succeeds and leaves the \<^verbatim>\<open>available\<close> field of that
  vehicle true. \<^verbatim>\<open>updateBooking\<close> with any other status, or none, leaves the \<^verbatim>\<open>available\<close>
  field of every vehicle as it was.
\<close>

theorem booking_availability:
  "field (database (snd (createBooking fb now key data)) (''bookings/'' @ key)) ''status''
       = JStr ''pending_payment''
   \<and> field (database (snd (createBooking fb now key data)) (''bookings/'' @ key)) ''paymentStatus''
       = JStr ''pending''
   \<and> field (database (snd (createBooking fb now key data)) (''bookings/'' @ key)) ''vehicleId''
       = JStr (b_vehicleId data)
   \<and> field (database (snd (createBooking fb now key data)) (''vehicles/'' @ b_vehicleId data))
         ''available'' = JBool False
   \<and> (snapshot_exists (db_get fb (''bookings/'' @ bookingId))
        \<and> truthy (field (db_get fb (''bookings/'' @ bookingId)) ''vehicleId'')
        \<and> (field updates ''status'' = JStr ''completed'' \<or> field updates ''status'' = JStr ''cancelled'')
        \<longrightarrow>
          fst (updateBooking fb now bookingId updates) = Inr ()
          \<and> field (database (snd (updateBooking fb now bookingId updates))
                (''vehicles/'' @ str_of (field (db_get fb (''bookings/'' @ bookingId)) ''vehicleId'')))
              ''available'' = JBool True)
   \<and> (field updates ''status'' \<noteq> JStr ''completed'' \<and> field updates ''status'' \<noteq> JStr ''cancelled''
        \<longrightarrow> (\<forall>v. field (database (snd (updateBooking fb now bookingId updates)) (''vehicles/'' @ v))
                    ''available''
                  = field (database fb (''vehicles/'' @ v)) ''available''))"
  using createBooking_fields [of fb now key data]
    updateBooking_terminal [of fb bookingId updates now]
    updateBooking_other [of updates fb now bookingId]
  by simp

text \<open>
  The life of one booking of vehicle \<open>vA\<close>: available before, not available once booked
  and while in progress, available again when completed.
\<close>

theorem booking_availability_witness:
  "field (database fleet2 ''vehicles/vA'') ''available'' = JBool True
   \<and> field (database booked ''bookings/-B1'') ''status'' = JStr ''pending_payment''
   \<and> field (database booked ''vehicles/vA'') ''available'' = JBool False
   \<and> field (database started ''vehicles/vA'') ''available'' = JBool False
   \<and> fst (updateBooking started 3000 ''-B1'' [(''status'', JStr ''completed'')]) = Inr ()
   \<and> field (database completed ''vehicles/vA'') ''available'' = JBool True"
proof -
  have v: "b_vehicleId booking1 = ''vA''"
    by (simp add: booking1_def)
  have c: "field (database booked (''bookings/'' @ ''-B1'')) ''status'' = JStr ''pending_payment''"
    "field (database booked (''bookings/'' @ ''-B1'')) ''vehicleId'' = JStr ''vA''"
    "field (database booked (''vehicles/'' @ ''vA'')) ''available'' = JBool False"
    using booking_availability [where fb = fleet2 and now = 1000 and key = "''-B1''" and data = booking1] v
    by (simp_all add: booked_def)
  have s: "field [(''status'', JStr ''in_progress'')] ''status'' \<noteq> JStr ''completed''"
    "field [(''status'', JStr ''in_progress'')] ''status'' \<noteq> JStr ''cancelled''"
    by (simp_all add: field_Cons)
  have u: "field (database started (''vehicles/'' @ ''vA'')) ''available'' = JBool False"
    using booking_availability [where fb = booked and now = 2000 and bookingId = "''-B1''"
        and updates = "[(''status'', JStr ''in_progress'')]"] s c(3)
    by (simp add: started_def)
  have b: "database started ''bookings/-B1'' \<noteq> []"
    "field (database started ''bookings/-B1'') ''vehicleId'' = JStr ''vA''"
    using c(2)
    by (simp_all add: started_def updateBooking_def Let_def booked_def createBooking_def
        markVehicleAsInUse_def database_db_update database_db_set merge_two field_merge_field
        merge_field_not_Nil timestamp_def db_get_def snapshot_exists_def field_Cons field_Nil
        booking1_def js_or_def)
  have t: "field [(''status'', JStr ''completed'')] ''status'' = JStr ''completed''"
    by (simp add: field_Cons)
  have f: "fst (updateBooking started 3000 ''-B1'' [(''status'', JStr ''completed'')]) = Inr ()"
    "field (database completed (''vehicles/'' @ ''vA'')) ''available'' = JBool True"
    using booking_availability [where fb = started and now = 3000 and bookingId = "''-B1''"
        and updates = "[(''status'', JStr ''completed'')]"] b t
    by (simp_all add: completed_def db_get_def snapshot_exists_def)
  have i: "field (database fleet2 ''vehicles/vA'') ''available'' = JBool True"
    by (simp add: fleet2_simps field_Cons)
  show ?thesis
    using c u f i by simp
qed


section \<open>Properties of the throttle\<close>
















section \<open>Properties of the IP fallback\<close>

lemma tryServices_Cons:
  "tryServices h (s # rest) =
     (case service_answer h s of Some l \<Rightarrow> Some l | None \<Rightarrow> tryServices h rest)"
  by (simp add: service_answer_def split: response.splits option.splits bool.splits)

lemma tryServices_services:
  "tryServices h services =
     (case service_answer h ''https://ipapi.co/json/'' of
        Some l \<Rightarrow> Some l
      | None \<Rightarrow>
          (case service_answer h ''https://ipinfo.io/json/'' of
             Some l \<Rightarrow> Some l
           | None \<Rightarrow> service_answer h ''https://geolocation-db.com/json/''))"
  unfolding services_def tryServices_Cons
  by (simp split: option.splits)

lemma length_indianCities: "length indianCities = 5"
  by (simp add: indianCities_def)

lemma city_index:
  fixes r :: real
  assumes "0 \<le> r" "r < 1"
  shows "0 \<le> \<lfloor>r * 5\<rfloor>" and "\<lfloor>r * 5\<rfloor> < 5" and "nat \<lfloor>r * 5\<rfloor> < 5"
proof -
  have "0 \<le> r * 5" using assms by simp
  then show a: "0 \<le> \<lfloor>r * 5\<rfloor>" by simp
  have "r * 5 < 5" using assms by simp
  then show b: "\<lfloor>r * 5\<rfloor> < 5" by (simp add: floor_less_iff)
  from a b show "nat \<lfloor>r * 5\<rfloor> < 5" by linarith
qed

text \<open>
  Claim C9. \<^verbatim>\<open>getIPLocation\<close> always returns a coordinate pair, never null. It asks the
  three services in their order, each request bounded by 5000 ms, and returns the location
  of the first that answers with a latitude and a longitude; when none does it returns one
  of the five cities, the one at index \<^verbatim>\<open>Math.floor(Math.random() * 5)\<close>; and when that
  draw throws it returns the centre of India (20.5937, 78.9629). \<^verbatim>\<open>Math.random()\<close> gives a
  number from 0 (included) to 1 (excluded). A response body, once the response has come, is
  read or fails.
\<close>

theorem ip_location_total:
  assumes range: "\<forall>r. math_random h = Inr r \<longrightarrow> 0 \<le> r \<and> r < 1"
  shows "getIPLocation h \<noteq> None
    \<and> services = [''https://ipapi.co/json/'', ''https://ipinfo.io/json/'',
                   ''https://geolocation-db.com/json/'']
    \<and> tryServices h services =
         (case service_answer h ''https://ipapi.co/json/'' of
            Some l \<Rightarrow> Some l
          | None \<Rightarrow>
              (case service_answer h ''https://ipinfo.io/json/'' of
                 Some l \<Rightarrow> Some l
               | None \<Rightarrow> service_answer h ''https://geolocation-db.com/json/''))
    \<and> (\<forall>l. tryServices h services = Some l \<longrightarrow> getIPLocation h = Some l)
    \<and> length indianCities = 5
    \<and> (\<forall>r. tryServices h services = None \<and> math_random h = Inr r \<longrightarrow>
          getIPLocation h = Some (indianCities ! nat \<lfloor>r * 5\<rfloor>)
          \<and> nat \<lfloor>r * 5\<rfloor> < length indianCities)
    \<and> (\<forall>e. tryServices h services = None \<and> math_random h = Inl e \<longrightarrow>
          getIPLocation h = Some \<lparr>lat = 20.5937, lng = 78.9629\<rparr>)"
proof -
  have city: "getIPLocation h = Some (indianCities ! nat \<lfloor>r * 5\<rfloor>) \<and> nat \<lfloor>r * 5\<rfloor> < length indianCities"
    if "tryServices h services = None" and "math_random h = Inr r" for r
  proof -
    from range that have r: "0 \<le> r" "r < 1" by auto
    have "at_index indianCities \<lfloor>r * 5\<rfloor> = Some (indianCities ! nat \<lfloor>r * 5\<rfloor>)"
      using city_index(1,2) [OF r] by (simp only: at_index_def length_indianCities) simp
    with that city_index(3) [OF r] show ?thesis
      by (simp add: getIPLocation_def length_indianCities)
  qed
  have dflt: "getIPLocation h = Some \<lparr>lat = 20.5937, lng = 78.9629\<rparr>"
    if "tryServices h services = None" and "math_random h = Inl e" for e
    using that by (simp add: getIPLocation_def)
  have found: "getIPLocation h = Some l" if "tryServices h services = Some l" for l
    using that by (simp add: getIPLocation_def)
  have total: "getIPLocation h \<noteq> None"
  proof (cases "tryServices h services")
    case (Some l)
    then show ?thesis by (simp add: found)
  next
    case None
    then show ?thesis
      by (cases "math_random h") (simp_all add: dflt city)
  qed
  show ?thesis
    using total city dflt found tryServices_services [of h] length_indianCities
    by (simp add: services_def)
qed

lemma offline_simps:
  "fetch offline = (\<lambda>service ms. Rejected)" "math_random offline = Inr 0.5"
  "fetch no_random = (\<lambda>service ms. Rejected)" "math_random no_random = Inl (Error ''random'')"
  "math_random second_answers = Inr 0.5" "parseFloat second_answers = num_of"
  "fetch second_answers = (\<lambda>service ms.
       if service = ''https://ipinfo.io/json/'' \<and> ms = 5000
       then Response True (Some [(''latitude'', JNum 13.0827), (''longitude'', JNum 80.2707)])
       else Response False None)"
  by (simp_all add: offline_def no_random_def second_answers_def)

text \<open>
  The theorem on three hosts: no service answers and the draw is 0.5 (Bangalore, the third
  city); the second service answers; no service answers and the draw throws.
\<close>

theorem ip_location_total_witness:
  "getIPLocation offline = Some \<lparr>lat = 12.9716, lng = 77.5946\<rparr>
   \<and> getIPLocation second_answers = Some \<lparr>lat = 13.0827, lng = 80.2707\<rparr>
   \<and> getIPLocation no_random = Some \<lparr>lat = 20.5937, lng = 78.9629\<rparr>"
proof -
  have r1: "\<forall>r. math_random offline = Inr r \<longrightarrow> 0 \<le> r \<and> r < 1"
    by (simp add: offline_simps)
  have r2: "\<forall>r. math_random second_answers = Inr r \<longrightarrow> 0 \<le> r \<and> r < 1"
    by (simp add: offline_simps)
  have r3: "\<forall>r. math_random no_random = Inr r \<longrightarrow> 0 \<le> r \<and> r < 1"
    by (simp add: offline_simps)
  have a1: "service_answer offline s = None" for s
    by (simp add: service_answer_def offline_simps)
  have a3: "service_answer no_random s = None" for s
    by (simp add: service_answer_def offline_simps)
  have a2: "service_answer second_answers ''https://ipapi.co/json/'' = None"
    "service_answer second_answers ''https://ipinfo.io/json/'' = Some \<lparr>lat = 13.0827, lng = 80.2707\<rparr>"
    by (simp_all add: service_answer_def offline_simps field_Cons)
  have c: "indianCities ! nat \<lfloor>(0.5 :: real) * 5\<rfloor> = \<lparr>lat = 12.9716, lng = 77.5946\<rparr>"
    by (simp add: indianCities_def)
  have t1: "tryServices offline services = None"
    using ip_location_total [OF r1] a1 by simp
  have "getIPLocation offline = Some (indianCities ! nat \<lfloor>(0.5 :: real) * 5\<rfloor>)"
    using ip_location_total [OF r1] t1 offline_simps(2) by blast
  then have 1: "getIPLocation offline = Some \<lparr>lat = 12.9716, lng = 77.5946\<rparr>"
    by (simp only: c)
  have 2: "getIPLocation second_answers = Some \<lparr>lat = 13.0827, lng = 80.2707\<rparr>"
    using ip_location_total [OF r2] a2 by simp
  have t3: "tryServices no_random services = None"
    using ip_location_total [OF r3] a3 by simp
  have 3: "getIPLocation no_random = Some \<lparr>lat = 20.5937, lng = 78.9629\<rparr>"
    using ip_location_total [OF r3] t3 offline_simps(4) by blast
  from 1 2 3 show ?thesis by simp
qed


section \<open>Properties of the GPS acquisition\<close>















end
